theory Spec2Isabelle
  imports Main
begin

section \<open>Timestamps\<close>

text \<open>
  A Go \<^verbatim>\<open>time.Time\<close> is read through \<^verbatim>\<open>Equal\<close>, \<^verbatim>\<open>Before\<close>, \<^verbatim>\<open>After\<close> and
  \<^verbatim>\<open>IsZero\<close> only, and each of them looks at the instant alone (never at the location
  or the monotonic reading). A timestamp is therefore the instant, counted in nanoseconds
  from the zero time (January 1, year 1, 00:00:00 UTC); instants before it are negative.
\<close>

type_synonym Time = int

definition time_Equal :: "Time \<Rightarrow> Time \<Rightarrow> bool" where
  "time_Equal t u = (t = u)"

definition Before :: "Time \<Rightarrow> Time \<Rightarrow> bool" where
  "Before t u = (t < u)"

definition After :: "Time \<Rightarrow> Time \<Rightarrow> bool" where
  "After t u = (t > u)"

definition IsZero :: "Time \<Rightarrow> bool" where
  "IsZero t = (t = 0)"

section \<open>NullTime (NullTime.go)\<close>

text \<open>\<^verbatim>\<open>type NullTime pq.NullTime\<close>: a struct of a timestamp and a validity flag.\<close>

record NullTime =
  Time :: Time
  Valid :: bool

text \<open>The zero value of the struct.\<close>

definition zero_NullTime :: NullTime where
  "zero_NullTime = \<lparr>Time = 0, Valid = False\<rparr>"

text \<open>
  \<^verbatim>\<open>
  func (a NullTime) Equal(b NullTime) bool {
      if a.Valid != b.Valid || !a.Time.Equal(b.Time) {
          return false
      }
      return true
  }
  \<close>
\<close>

definition NullTime_Equal :: "NullTime \<Rightarrow> NullTime \<Rightarrow> bool" where
  "NullTime_Equal a b =
     (if Valid a \<noteq> Valid b \<or> \<not> time_Equal (Time a) (Time b) then False else True)"

text \<open>
  \<^verbatim>\<open>
  func (nt NullTime) EqualTime(t time.Time) bool {
      if !nt.Valid { return false }
      if !nt.Time.Equal(t) { return false }
      return true
  }
  \<close>
\<close>

definition EqualTime :: "NullTime \<Rightarrow> Time \<Rightarrow> bool" where
  "EqualTime nt t =
     (if \<not> Valid nt then False
      else if \<not> time_Equal (Time nt) t then False
      else True)"

section \<open>TimeRange\<close>

text \<open>
  The legacy \<^verbatim>\<open>GOHMoney.TimeRange\<close> is a struct of two NullTimes with exported fields
  \<^verbatim>\<open>Start\<close> and \<^verbatim>\<open>End\<close>; the current \<^verbatim>\<open>gohtime.Range\<close> holds the same two
  values behind the getters \<^verbatim>\<open>Start()\<close> and \<^verbatim>\<open>End()\<close>. One record stands for both.
\<close>

record TimeRange =
  Start :: NullTime
  End :: NullTime

definition zero_TimeRange :: TimeRange where
  "zero_TimeRange = \<lparr>Start = zero_NullTime, End = zero_NullTime\<rparr>"

text \<open>
  Modelled from the spec: the methods of the time range (\<^verbatim>\<open>Contains\<close>, \<^verbatim>\<open>Equal\<close>
  and the two setters \<^verbatim>\<open>gohtime.Start\<close>, \<^verbatim>\<open>gohtime.End\<close>) are not in the source.
  \<^verbatim>\<open>Contains(t)\<close>: true iff t is not before start and (end is invalid or t is not
  after end).
\<close>

definition Contains :: "TimeRange \<Rightarrow> Time \<Rightarrow> bool" where
  "Contains r t =
     (\<not> Before t (Time (Start r)) \<and> (\<not> Valid (End r) \<or> \<not> After t (Time (End r))))"


section \<open>Error descriptions and error values\<close>

text \<open>
  Modelled from the spec: the description constants are declared outside the source, which
  only names them; each stands here for its own text. No theorem depends on the wording.
\<close>

definition EmptyNameError :: string where
  "EmptyNameError = ''EmptyNameError''"

definition ZeroDateOpenedError :: string where
  "ZeroDateOpenedError = ''ZeroDateOpenedError''"

definition ZeroValidDateClosedError :: string where
  "ZeroValidDateClosedError = ''ZeroValidDateClosedError''"


text \<open>
  \<^verbatim>\<open>FieldError\<close> (legacy \<^verbatim>\<open>AccountFieldError\<close>) is a slice of strings. A function that
  returns one returns \<open>None\<close> for the nil slice and \<open>Some ds\<close> for a slice that is
  present, so that an empty but present slice \<open>Some []\<close> differs from nil as it does in Go.
\<close>

type_synonym FieldError = "string list"

text \<open>
  The values of Go's \<^verbatim>\<open>error\<close> interface that the accounts return: a FieldError, the
  boundary violation with its two fields \<^verbatim>\<open>BalanceDate\<close> and \<^verbatim>\<open>AccountTimeRange\<close>,
  and an error of a collaborator, kept by its message.
\<close>

datatype error =
  FieldErr FieldError
| DateOutOfAccountTimeRange Time TimeRange
| TextError string

section \<open>strings.TrimSpace\<close>

text \<open>
  \<^verbatim>\<open>strings.TrimSpace\<close> removes the leading and the trailing white space of a string, as
  \<^verbatim>\<open>unicode.IsSpace\<close> defines it, rune by rune. A Go string is a sequence of bytes, so
  the white space runes are listed by their UTF-8 encodings: the six ASCII ones, U+0085,
  U+00A0, U+1680, U+2000 to U+200A, U+2028, U+2029, U+202F, U+205F and U+3000. Any other
  byte sequence, malformed or not, decodes to a rune that is not white space.
\<close>

definition space_encodings :: "string list" where
  "space_encodings =
     [[CHR 0x09], [CHR 0x0A], [CHR 0x0B], [CHR 0x0C], [CHR 0x0D], [CHR 0x20],
      [CHR 0xC2, CHR 0x85], [CHR 0xC2, CHR 0xA0],
      [CHR 0xE1, CHR 0x9A, CHR 0x80],
      [CHR 0xE2, CHR 0x80, CHR 0x80], [CHR 0xE2, CHR 0x80, CHR 0x81],
      [CHR 0xE2, CHR 0x80, CHR 0x82], [CHR 0xE2, CHR 0x80, CHR 0x83],
      [CHR 0xE2, CHR 0x80, CHR 0x84], [CHR 0xE2, CHR 0x80, CHR 0x85],
      [CHR 0xE2, CHR 0x80, CHR 0x86], [CHR 0xE2, CHR 0x80, CHR 0x87],
      [CHR 0xE2, CHR 0x80, CHR 0x88], [CHR 0xE2, CHR 0x80, CHR 0x89],
      [CHR 0xE2, CHR 0x80, CHR 0x8A],
      [CHR 0xE2, CHR 0x80, CHR 0xA8], [CHR 0xE2, CHR 0x80, CHR 0xA9],
      [CHR 0xE2, CHR 0x80, CHR 0xAF],
      [CHR 0xE2, CHR 0x81, CHR 0x9F],
      [CHR 0xE3, CHR 0x80, CHR 0x80]]"

text \<open>The width in bytes of the white space rune at the front of \<open>s\<close>, 0 when there is none.\<close>

fun leading_space :: "string list \<Rightarrow> string \<Rightarrow> nat" where
  "leading_space [] s = 0"
| "leading_space (p # ps) s =
     (if take (length p) s = p then length p else leading_space ps s)"

text \<open>The same at the back of \<open>s\<close>.\<close>

fun trailing_space :: "string list \<Rightarrow> string \<Rightarrow> nat" where
  "trailing_space [] s = 0"
| "trailing_space (p # ps) s =
     (if take (length p) (rev s) = rev p then length p else trailing_space ps s)"

lemma leading_space_le: "leading_space ps s \<le> length s"
proof (induction ps)
  case Nil
  show ?case by simp
next
  case (Cons p ps)
  have "take (length p) s = p \<Longrightarrow> length p \<le> length s"
    by (metis length_take min.cobounded1)
  with Cons show ?case by simp
qed

lemma trailing_space_le: "trailing_space ps s \<le> length s"
proof (induction ps)
  case Nil
  show ?case by simp
next
  case (Cons p ps)
  have "take (length p) (rev s) = rev p \<Longrightarrow> length p \<le> length s"
    by (metis length_rev length_take min.cobounded1)
  with Cons show ?case by simp
qed

function TrimLeft :: "string \<Rightarrow> string" where
  "TrimLeft s =
     (let n = leading_space space_encodings s
      in if n = 0 then s else TrimLeft (drop n s))"
  by pat_completeness auto
termination
proof (relation "measure length")
  show "wf (measure length)" by simp
next
  fix s :: string and n :: nat
  assume n: "n = leading_space space_encodings s" and "n \<noteq> 0"
  with leading_space_le [of space_encodings s] have "0 < n" "n \<le> length s" by simp_all
  then show "(drop n s, s) \<in> measure length" by simp
qed

function TrimRight :: "string \<Rightarrow> string" where
  "TrimRight s =
     (let n = trailing_space space_encodings s
      in if n = 0 then s else TrimRight (take (length s - n) s))"
  by pat_completeness auto
termination
proof (relation "measure length")
  show "wf (measure length)" by simp
next
  fix s :: string and n :: nat
  assume n: "n = trailing_space space_encodings s" and "n \<noteq> 0"
  with trailing_space_le [of space_encodings s] have "0 < n" "n \<le> length s" by simp_all
  then show "(take (length s - n) s, s) \<in> measure length" by simp
qed

declare TrimLeft.simps [simp del] TrimRight.simps [simp del]

definition TrimSpace :: "string \<Rightarrow> string" where
  "TrimSpace s = TrimRight (TrimLeft s)"

section \<open>Accounts\<close>

text \<open>
  The legacy struct has a name and a time range; the current one adds the currency code,
  a string type of the currency collaborator.
  \<^verbatim>\<open>
  type Account struct {
      Name         string
      timeRange    gohtime.Range
      currencyCode currency.Code
  }
  \<close>
\<close>

type_synonym Code = string

record LegacyAccount =
  Name :: string
  timeRange :: TimeRange

record Account = LegacyAccount +
  currencyCode :: Code

text \<open>The zero values \<^verbatim>\<open>Account{}\<close> of the two structs.\<close>

definition zero_LegacyAccount :: LegacyAccount where
  "zero_LegacyAccount = \<lparr>Name = [], timeRange = zero_TimeRange\<rparr>"

definition zero_Account :: Account where
  "zero_Account = \<lparr>Name = [], timeRange = zero_TimeRange, currencyCode = []\<rparr>"

text \<open>
  The getters are the same in both shapes:
  \<^verbatim>\<open>
  func (a Account) Start() time.Time     { return a.timeRange.Start().Time }
  func (a Account) End() gohtime.NullTime { return a.timeRange.End() }
  func (a Account) IsOpen() bool          { return !a.timeRange.End().Valid }
  \<close>
\<close>

definition Account_Start :: "'a LegacyAccount_scheme \<Rightarrow> Time" where
  "Account_Start a = Time (Start (timeRange a))"

definition Account_End :: "'a LegacyAccount_scheme \<Rightarrow> NullTime" where
  "Account_End a = End (timeRange a)"

definition IsOpen :: "'a LegacyAccount_scheme \<Rightarrow> bool" where
  "IsOpen a = (\<not> Valid (End (timeRange a)))"

text \<open>
  The current \<^verbatim>\<open>Validate\<close> checks the name only:
  \<^verbatim>\<open>
  func (a Account) Validate() FieldError {
      var fieldErrorDescriptions []string
      if len(strings.TrimSpace(a.Name)) == 0 {
          fieldErrorDescriptions = append(fieldErrorDescriptions, EmptyNameError)
      }
      if len(fieldErrorDescriptions) > 0 {
          return FieldError(fieldErrorDescriptions)
      }
      return nil
  }
  \<close>
\<close>

definition Validate :: "Account \<Rightarrow> FieldError option" where
  "Validate a =
     (let d0 = [];
          d1 = (if length (TrimSpace (Name a)) = 0 then d0 @ [EmptyNameError] else d0)
      in if length d1 > 0 then Some d1 else None)"

text \<open>
  The legacy \<^verbatim>\<open>Validate\<close> makes four checks, one after the other:
  \<^verbatim>\<open>
  func (account Account) Validate() GOHMoney.AccountFieldError {
      var fieldErrorDescriptions []string
      if len(strings.TrimSpace(account.Name)) == 0 { ... append EmptyNameError }
      if err := account.timeRange.Validate(); err != nil { ... append err.Error() }
      if account.Start().IsZero() { ... append ZeroDateOpenedError }
      if account.End().Valid && account.End().Time.IsZero() { ... append ZeroValidDateClosedError }
      if len(fieldErrorDescriptions) > 0 {
          return GOHMoney.AccountFieldError(fieldErrorDescriptions)
      }
      return nil
  }
  \<close>
  \<^verbatim>\<open>TimeRange.Validate\<close> is not in the source: it is the parameter \<open>trv\<close>, which gives
  the message \<^verbatim>\<open>err.Error()\<close> of the error it returns, or \<open>None\<close> for nil.
\<close>

definition Validate_legacy :: "(TimeRange \<Rightarrow> string option) \<Rightarrow> LegacyAccount \<Rightarrow> FieldError option" where
  "Validate_legacy trv account =
     (let d0 = [];
          d1 = (if length (TrimSpace (Name account)) = 0 then d0 @ [EmptyNameError] else d0);
          d2 = (case trv (timeRange account) of Some msg \<Rightarrow> d1 @ [msg] | None \<Rightarrow> d1);
          d3 = (if IsZero (Account_Start account) then d2 @ [ZeroDateOpenedError] else d2);
          d4 = (if Valid (Account_End account) \<and> IsZero (Time (Account_End account))
                then d3 @ [ZeroValidDateClosedError] else d3)
      in if length d4 > 0 then Some d4 else None)"


section \<open>Validating a balance against an account\<close>

text \<open>
  The accounts read the date of a balance only; its monetary fields are the extension of
  the record.
\<close>

record Balance =
  Date :: Time

text \<open>
  \<^verbatim>\<open>
  func (a Account) ValidateBalance(b balance.Balance) error {
      if err := a.Validate(); err != nil {
          return err
      }
      if !a.timeRange.Contains(b.Date) && (!a.End().Valid || !a.End().Time.Equal(b.Date)) {
          return balance.DateOutOfAccountTimeRange{
              BalanceDate:      b.Date,
              AccountTimeRange: a.timeRange,
          }
      }
      return nil
  }
  \<close>
\<close>

definition ValidateBalance :: "Account \<Rightarrow> 'b Balance_scheme \<Rightarrow> error option" where
  "ValidateBalance a b =
     (case Validate a of
        Some err \<Rightarrow> Some (FieldErr err)
      | None \<Rightarrow>
          if \<not> Contains (timeRange a) (Date b) \<and>
             (\<not> Valid (Account_End a) \<or> \<not> time_Equal (Time (Account_End a)) (Date b))
          then Some (DateOutOfAccountTimeRange (Date b) (timeRange a))
          else None)"

text \<open>
  The legacy method validates the balance itself between the two steps:
  \<^verbatim>\<open>
      if err := account.Validate(); err != nil { return err }
      if err := b.Validate(); err != nil { return err }
      if !account.timeRange.Contains(b.Date) && (!account.End().Valid || !account.End().Time.Equal(b.Date)) {
          return GOHMoney.BalanceDateOutOfAccountTimeRange{ ... }
      }
      return nil
  \<close>
  \<^verbatim>\<open>Balance.Validate\<close> is not in the source: it is the parameter \<open>bv\<close>.
\<close>

definition ValidateBalance_legacy ::
  "(TimeRange \<Rightarrow> string option) \<Rightarrow> ('b Balance_scheme \<Rightarrow> error option) \<Rightarrow>
   LegacyAccount \<Rightarrow> 'b Balance_scheme \<Rightarrow> error option" where
  "ValidateBalance_legacy trv bv account b =
     (case Validate_legacy trv account of
        Some err \<Rightarrow> Some (FieldErr err)
      | None \<Rightarrow>
          (case bv b of
             Some err \<Rightarrow> Some err
           | None \<Rightarrow>
               if \<not> Contains (timeRange account) (Date b) \<and>
                  (\<not> Valid (Account_End account) \<or>
                   \<not> time_Equal (Time (Account_End account)) (Date b))
               then Some (DateOutOfAccountTimeRange (Date b) (timeRange account))
               else None))"

section \<open>Construction\<close>








section \<open>JSON\<close>






section \<open>Properties of NullTime\<close>

text \<open>
  Claim C7. \<^verbatim>\<open>NullTime.Equal(a, b)\<close> is true exactly when the Valid flags of a and b
  match and their timestamps are equal; the timestamps are compared even when both values
  are invalid, so two invalid NullTimes with different raw timestamps are not Equal.
\<close>

theorem NullTime_Equal_strict:
  "(NullTime_Equal a b \<longleftrightarrow> Valid a = Valid b \<and> Time a = Time b) \<and>
   (\<not> Valid a \<and> \<not> Valid b \<and> Time a \<noteq> Time b \<longrightarrow> \<not> NullTime_Equal a b)"
  by (simp add: NullTime_Equal_def time_Equal_def)

theorem NullTime_Equal_strict_witness:
  "\<not> Valid \<lparr>Time = 0, Valid = False\<rparr> \<and> \<not> Valid \<lparr>Time = 5, Valid = False\<rparr> \<and>
   Time \<lparr>Time = 0, Valid = False\<rparr> \<noteq> Time \<lparr>Time = 5, Valid = False\<rparr> \<and>
   \<not> NullTime_Equal \<lparr>Time = 0, Valid = False\<rparr> \<lparr>Time = 5, Valid = False\<rparr> \<and>
   NullTime_Equal \<lparr>Time = 5, Valid = False\<rparr> \<lparr>Time = 5, Valid = False\<rparr>"
  using NullTime_Equal_strict [of "\<lparr>Time = 0, Valid = False\<rparr>" "\<lparr>Time = 5, Valid = False\<rparr>"]
    NullTime_Equal_strict [of "\<lparr>Time = 5, Valid = False\<rparr>" "\<lparr>Time = 5, Valid = False\<rparr>"]
  by simp

section \<open>Properties of the accounts\<close>

text \<open>
  Claim C8. For every account, of either shape, \<^verbatim>\<open>IsOpen()\<close> is true exactly when the
  end NullTime is invalid; the zero-valued account, with no field set, is open.
\<close>

theorem IsOpen_iff_end_invalid:
  "(IsOpen a \<longleftrightarrow> \<not> Valid (Account_End a)) \<and> IsOpen zero_Account \<and> IsOpen zero_LegacyAccount"
  by (simp add: IsOpen_def Account_End_def zero_Account_def zero_LegacyAccount_def
      zero_TimeRange_def zero_NullTime_def)

theorem IsOpen_iff_end_invalid_witness:
  "\<not> IsOpen \<lparr>Name = ''A'', timeRange = \<lparr>Start = \<lparr>Time = 1, Valid = True\<rparr>,
       End = \<lparr>Time = 5, Valid = True\<rparr>\<rparr>, currencyCode = ''EUR''\<rparr> \<and>
   IsOpen \<lparr>Name = [], timeRange = \<lparr>Start = \<lparr>Time = 0, Valid = False\<rparr>,
       End = \<lparr>Time = 0, Valid = False\<rparr>\<rparr>, currencyCode = []\<rparr>"
  using IsOpen_iff_end_invalid [of "\<lparr>Name = ''A'', timeRange = \<lparr>Start = \<lparr>Time = 1, Valid = True\<rparr>,
       End = \<lparr>Time = 5, Valid = True\<rparr>\<rparr>, currencyCode = ''EUR''\<rparr>"]
  by (simp add: Account_End_def zero_Account_def zero_TimeRange_def zero_NullTime_def)

text \<open>
  Claim C9. \<^verbatim>\<open>Validate()\<close> never returns an empty but present FieldError, and on an
  account on which every check passes it returns nil. In the current shape the only check
  is the name; in the legacy shape the checks are the name, the time range's own
  validation, the zero start and the valid end with a zero time.
\<close>

theorem Validate_nil_when_checks_pass:
  "Validate a \<noteq> Some [] \<and>
   (length (TrimSpace (Name a)) \<noteq> 0 \<longrightarrow> Validate a = None) \<and>
   Validate_legacy trv la \<noteq> Some [] \<and>
   (length (TrimSpace (Name la)) \<noteq> 0 \<and> trv (timeRange la) = None \<and>
    \<not> IsZero (Account_Start la) \<and>
    \<not> (Valid (Account_End la) \<and> IsZero (Time (Account_End la)))
    \<longrightarrow> Validate_legacy trv la = None)"
  by (auto simp: Validate_def Validate_legacy_def Let_def split: option.splits if_splits)

theorem Validate_nil_when_checks_pass_witness:
  "Validate \<lparr>Name = ''A'', timeRange = zero_TimeRange, currencyCode = ''EUR''\<rparr> = None \<and>
   Validate_legacy (\<lambda>r. None)
     \<lparr>Name = ''A'', timeRange = \<lparr>Start = \<lparr>Time = 1, Valid = True\<rparr>, End = zero_NullTime\<rparr>\<rparr> = None"
proof -
  let ?a = "\<lparr>Name = ''A'', timeRange = zero_TimeRange, currencyCode = ''EUR''\<rparr>"
  let ?la = "\<lparr>Name = ''A'', timeRange = \<lparr>Start = \<lparr>Time = 1, Valid = True\<rparr>, End = zero_NullTime\<rparr>\<rparr>"
  have n: "length (TrimSpace (Name ?a)) \<noteq> 0" by code_simp
  have nl: "length (TrimSpace (Name ?la)) \<noteq> 0" by code_simp
  have s: "\<not> IsZero (Account_Start ?la)" by code_simp
  have e: "\<not> (Valid (Account_End ?la) \<and> IsZero (Time (Account_End ?la)))" by code_simp
  from Validate_nil_when_checks_pass [of ?a "\<lambda>r. None" ?la] n nl s e show ?thesis by simp
qed

text \<open>
  Claim C1, as stated, fails in the current shape: the zero-valued account has an empty
  name and a zero start time, and \<^verbatim>\<open>Validate()\<close> returns the single description
  EmptyNameError, not the two descriptions EmptyNameError and ZeroDateOpenedError. It
  fails in the legacy shape too, on an account whose end is valid with a zero time: there
  a third description follows the two (the time range's own validation reports nothing
  on such a range, as the legacy test of \<^verbatim>\<open>Validate\<close> shows).
\<close>

theorem Validate_empty_name_counterexample:
  "length (TrimSpace (Name zero_Account)) = 0 \<and> IsZero (Account_Start zero_Account) \<and>
   Validate zero_Account = Some [EmptyNameError] \<and>
   Validate zero_Account \<noteq> Some [EmptyNameError, ZeroDateOpenedError] \<and>
   Validate_legacy Map.empty
     \<lparr>Name = [], timeRange = \<lparr>Start = zero_NullTime, End = \<lparr>Time = 0, Valid = True\<rparr>\<rparr>\<rparr>
     = Some [EmptyNameError, ZeroDateOpenedError, ZeroValidDateClosedError]"
  by code_simp

text \<open>
  Claim C1, amended. For every account with an empty name (after trimming white space):
  in the current shape \<^verbatim>\<open>Validate()\<close> returns exactly EmptyNameError, whatever the start
  time; in the legacy shape, when the start time is zero, it returns EmptyNameError, then
  the message of the time range's own validation if it fails, then ZeroDateOpenedError,
  then ZeroValidDateClosedError if the end is valid with a zero time: no check is skipped
  after an earlier failure. The result is exactly EmptyNameError and ZeroDateOpenedError
  when the time range's own validation passes and the end is not valid with a zero time.
\<close>

theorem Validate_empty_name:
  "(length (TrimSpace (Name a)) = 0 \<longrightarrow> Validate a = Some [EmptyNameError]) \<and>
   (length (TrimSpace (Name la)) = 0 \<and> IsZero (Account_Start la) \<longrightarrow>
      Validate_legacy trv la =
        Some ([EmptyNameError] @ (case trv (timeRange la) of Some msg \<Rightarrow> [msg] | None \<Rightarrow> []) @
              [ZeroDateOpenedError] @
              (if Valid (Account_End la) \<and> IsZero (Time (Account_End la))
               then [ZeroValidDateClosedError] else []))) \<and>
   (length (TrimSpace (Name la)) = 0 \<and> IsZero (Account_Start la) \<and>
    trv (timeRange la) = None \<and>
    \<not> (Valid (Account_End la) \<and> IsZero (Time (Account_End la))) \<longrightarrow>
      Validate_legacy trv la = Some [EmptyNameError, ZeroDateOpenedError])"
  by (auto simp: Validate_def Validate_legacy_def Let_def split: option.splits)

theorem Validate_empty_name_witness:
  "Validate \<lparr>Name = '' '', timeRange = zero_TimeRange, currencyCode = ''EUR''\<rparr> = Some [EmptyNameError] \<and>
   Validate_legacy (\<lambda>r. None) zero_LegacyAccount = Some [EmptyNameError, ZeroDateOpenedError] \<and>
   Validate_legacy (\<lambda>r. None)
     \<lparr>Name = [], timeRange = \<lparr>Start = zero_NullTime, End = \<lparr>Time = 0, Valid = True\<rparr>\<rparr>\<rparr>
     = Some [EmptyNameError, ZeroDateOpenedError, ZeroValidDateClosedError]"
proof -
  let ?a = "\<lparr>Name = '' '', timeRange = zero_TimeRange, currencyCode = ''EUR''\<rparr>"
  let ?lb = "\<lparr>Name = [], timeRange = \<lparr>Start = zero_NullTime, End = \<lparr>Time = 0, Valid = True\<rparr>\<rparr>\<rparr>"
  have n: "length (TrimSpace (Name ?a)) = 0" by code_simp
  have l: "length (TrimSpace (Name zero_LegacyAccount)) = 0 \<and> IsZero (Account_Start zero_LegacyAccount) \<and>
    \<not> (Valid (Account_End zero_LegacyAccount) \<and> IsZero (Time (Account_End zero_LegacyAccount)))"
    by code_simp
  have b: "length (TrimSpace (Name ?lb)) = 0 \<and> IsZero (Account_Start ?lb) \<and>
    Valid (Account_End ?lb) \<and> IsZero (Time (Account_End ?lb))"
    by code_simp
  from Validate_empty_name [of ?a zero_LegacyAccount "\<lambda>r. None"]
       Validate_empty_name [of ?a ?lb "\<lambda>r. None"] n l b
  show ?thesis by simp
qed

section \<open>Properties of ValidateBalance\<close>

text \<open>
  Claim C2. For every account whose own \<^verbatim>\<open>Validate()\<close> returns a FieldError and for
  every balance, \<^verbatim>\<open>ValidateBalance\<close> returns exactly that FieldError, not wrapped. The
  result is the same for every balance (and, in the legacy shape, whatever the balance's
  own validation says): the balance is not examined.
\<close>

theorem ValidateBalance_invalid_account:
  "(Validate a = Some fe \<longrightarrow> ValidateBalance a b = Some (FieldErr fe)) \<and>
   (Validate_legacy trv la = Some fe' \<longrightarrow>
      ValidateBalance_legacy trv bv la b' = Some (FieldErr fe'))"
  by (simp add: ValidateBalance_def ValidateBalance_legacy_def)

theorem ValidateBalance_invalid_account_witness:
  "Validate zero_Account = Some [EmptyNameError] \<and>
   ValidateBalance zero_Account \<lparr>Date = 7\<rparr> = Some (FieldErr [EmptyNameError]) \<and>
   Validate_legacy (\<lambda>r. None) zero_LegacyAccount = Some [EmptyNameError, ZeroDateOpenedError] \<and>
   ValidateBalance_legacy (\<lambda>r. None) (\<lambda>b. Some (TextError ''bad balance'')) zero_LegacyAccount \<lparr>Date = 7\<rparr>
     = Some (FieldErr [EmptyNameError, ZeroDateOpenedError])"
proof -
  have v: "Validate zero_Account = Some [EmptyNameError]" by code_simp
  have vl: "Validate_legacy (\<lambda>r. None) zero_LegacyAccount = Some [EmptyNameError, ZeroDateOpenedError]"
    by code_simp
  from ValidateBalance_invalid_account [of zero_Account "[EmptyNameError]" "\<lparr>Date = 7\<rparr>"
      "\<lambda>r. None" zero_LegacyAccount "[EmptyNameError, ZeroDateOpenedError]"
      "\<lambda>b. Some (TextError ''bad balance'')" "\<lparr>Date = 7\<rparr>"] v vl
  show ?thesis by simp
qed

text \<open>
  Claim C3. For every closed account (valid end) that passes its own validation,
  \<^verbatim>\<open>ValidateBalance\<close> accepts a balance dated exactly at the close timestamp and rejects
  a balance dated strictly after it with the boundary violation. In the legacy shape the
  balance first has to pass its own validation.
\<close>

theorem ValidateBalance_closed_boundary:
  "(Validate a = None \<and> Valid (Account_End a) \<and> Date b = Time (Account_End a) \<longrightarrow>
      ValidateBalance a b = None) \<and>
   (Validate a = None \<and> Valid (Account_End a) \<and> After (Date b) (Time (Account_End a)) \<longrightarrow>
      ValidateBalance a b = Some (DateOutOfAccountTimeRange (Date b) (timeRange a))) \<and>
   (Validate_legacy trv la = None \<and> bv c = None \<and> Valid (Account_End la) \<and>
    Date c = Time (Account_End la) \<longrightarrow>
      ValidateBalance_legacy trv bv la c = None) \<and>
   (Validate_legacy trv la = None \<and> bv c = None \<and> Valid (Account_End la) \<and>
    After (Date c) (Time (Account_End la)) \<longrightarrow>
      ValidateBalance_legacy trv bv la c = Some (DateOutOfAccountTimeRange (Date c) (timeRange la)))"
  by (simp add: ValidateBalance_def ValidateBalance_legacy_def Contains_def Account_End_def
      time_Equal_def After_def)

theorem ValidateBalance_closed_boundary_witness:
  "ValidateBalance \<lparr>Name = ''A'', timeRange = \<lparr>Start = \<lparr>Time = 10, Valid = True\<rparr>,
       End = \<lparr>Time = 20, Valid = True\<rparr>\<rparr>, currencyCode = ''EUR''\<rparr> \<lparr>Date = 20\<rparr> = None \<and>
   ValidateBalance \<lparr>Name = ''A'', timeRange = \<lparr>Start = \<lparr>Time = 10, Valid = True\<rparr>,
       End = \<lparr>Time = 20, Valid = True\<rparr>\<rparr>, currencyCode = ''EUR''\<rparr> \<lparr>Date = 21\<rparr>
     = Some (DateOutOfAccountTimeRange 21 \<lparr>Start = \<lparr>Time = 10, Valid = True\<rparr>,
         End = \<lparr>Time = 20, Valid = True\<rparr>\<rparr>) \<and>
   ValidateBalance_legacy (\<lambda>r. None) (\<lambda>b. None)
     \<lparr>Name = ''A'', timeRange = \<lparr>Start = \<lparr>Time = 10, Valid = True\<rparr>,
       End = \<lparr>Time = 20, Valid = True\<rparr>\<rparr>\<rparr> \<lparr>Date = 20\<rparr> = None \<and>
   ValidateBalance_legacy (\<lambda>r. None) (\<lambda>b. None)
     \<lparr>Name = ''A'', timeRange = \<lparr>Start = \<lparr>Time = 10, Valid = True\<rparr>,
       End = \<lparr>Time = 20, Valid = True\<rparr>\<rparr>\<rparr> \<lparr>Date = 21\<rparr>
     = Some (DateOutOfAccountTimeRange 21 \<lparr>Start = \<lparr>Time = 10, Valid = True\<rparr>,
         End = \<lparr>Time = 20, Valid = True\<rparr>\<rparr>)"
proof -
  let ?r = "\<lparr>Start = \<lparr>Time = 10, Valid = True\<rparr>, End = \<lparr>Time = 20, Valid = True\<rparr>\<rparr>"
  let ?a = "\<lparr>Name = ''A'', timeRange = ?r, currencyCode = ''EUR''\<rparr>"
  let ?la = "\<lparr>Name = ''A'', timeRange = ?r\<rparr>"
  have v: "Validate ?a = None" by code_simp
  have vl: "Validate_legacy (\<lambda>r. None) ?la = None" by code_simp
  have e: "Valid (Account_End ?a) \<and> Time (Account_End ?a) = 20 \<and>
           Valid (Account_End ?la) \<and> Time (Account_End ?la) = 20"
    by (simp add: Account_End_def)
  have f: "After 21 20" by (simp add: After_def)
  from ValidateBalance_closed_boundary [of ?a "\<lparr>Date = 20\<rparr>" "\<lambda>r. None" ?la "\<lambda>b. None" "\<lparr>Date = 20\<rparr>"]
       ValidateBalance_closed_boundary [of ?a "\<lparr>Date = 21\<rparr>" "\<lambda>r. None" ?la "\<lambda>b. None" "\<lparr>Date = 21\<rparr>"]
       v vl e f
  show ?thesis by simp
qed

text \<open>
  Claim C6. For every open account (invalid end) that passes its own validation, with
  start time t, \<^verbatim>\<open>ValidateBalance\<close> accepts a balance dated exactly t and rejects a
  balance dated strictly before t with the boundary violation that carries the date of
  the balance and the time range of the account. In the legacy shape the balance first
  has to pass its own validation.
\<close>

theorem ValidateBalance_open_boundary:
  "(Validate a = None \<and> \<not> Valid (Account_End a) \<and> Date b = Account_Start a \<longrightarrow>
      ValidateBalance a b = None) \<and>
   (Validate a = None \<and> \<not> Valid (Account_End a) \<and> Before (Date b) (Account_Start a) \<longrightarrow>
      ValidateBalance a b = Some (DateOutOfAccountTimeRange (Date b) (timeRange a))) \<and>
   (Validate_legacy trv la = None \<and> bv c = None \<and> \<not> Valid (Account_End la) \<and>
    Date c = Account_Start la \<longrightarrow>
      ValidateBalance_legacy trv bv la c = None) \<and>
   (Validate_legacy trv la = None \<and> bv c = None \<and> \<not> Valid (Account_End la) \<and>
    Before (Date c) (Account_Start la) \<longrightarrow>
      ValidateBalance_legacy trv bv la c = Some (DateOutOfAccountTimeRange (Date c) (timeRange la)))"
  by (simp add: ValidateBalance_def ValidateBalance_legacy_def Contains_def Account_End_def
      Account_Start_def time_Equal_def Before_def)

theorem ValidateBalance_open_boundary_witness:
  "ValidateBalance \<lparr>Name = ''A'', timeRange = \<lparr>Start = \<lparr>Time = 10, Valid = True\<rparr>,
       End = \<lparr>Time = 0, Valid = False\<rparr>\<rparr>, currencyCode = ''EUR''\<rparr> \<lparr>Date = 10\<rparr> = None \<and>
   ValidateBalance \<lparr>Name = ''A'', timeRange = \<lparr>Start = \<lparr>Time = 10, Valid = True\<rparr>,
       End = \<lparr>Time = 0, Valid = False\<rparr>\<rparr>, currencyCode = ''EUR''\<rparr> \<lparr>Date = 3\<rparr>
     = Some (DateOutOfAccountTimeRange 3 \<lparr>Start = \<lparr>Time = 10, Valid = True\<rparr>,
         End = \<lparr>Time = 0, Valid = False\<rparr>\<rparr>) \<and>
   ValidateBalance_legacy (\<lambda>r. None) (\<lambda>b. None)
     \<lparr>Name = ''A'', timeRange = \<lparr>Start = \<lparr>Time = 10, Valid = True\<rparr>,
       End = \<lparr>Time = 0, Valid = False\<rparr>\<rparr>\<rparr> \<lparr>Date = 10\<rparr> = None \<and>
   ValidateBalance_legacy (\<lambda>r. None) (\<lambda>b. None)
     \<lparr>Name = ''A'', timeRange = \<lparr>Start = \<lparr>Time = 10, Valid = True\<rparr>,
       End = \<lparr>Time = 0, Valid = False\<rparr>\<rparr>\<rparr> \<lparr>Date = 3\<rparr>
     = Some (DateOutOfAccountTimeRange 3 \<lparr>Start = \<lparr>Time = 10, Valid = True\<rparr>,
         End = \<lparr>Time = 0, Valid = False\<rparr>\<rparr>)"
proof -
  let ?r = "\<lparr>Start = \<lparr>Time = 10, Valid = True\<rparr>, End = \<lparr>Time = 0, Valid = False\<rparr>\<rparr>"
  let ?a = "\<lparr>Name = ''A'', timeRange = ?r, currencyCode = ''EUR''\<rparr>"
  let ?la = "\<lparr>Name = ''A'', timeRange = ?r\<rparr>"
  have v: "Validate ?a = None" by code_simp
  have vl: "Validate_legacy (\<lambda>r. None) ?la = None" by code_simp
  have e: "\<not> Valid (Account_End ?a) \<and> Account_Start ?a = 10 \<and>
           \<not> Valid (Account_End ?la) \<and> Account_Start ?la = 10"
    by (simp add: Account_End_def Account_Start_def)
  have f: "Before 3 10" by (simp add: Before_def)
  from ValidateBalance_open_boundary [of ?a "\<lparr>Date = 10\<rparr>" "\<lambda>r. None" ?la "\<lambda>b. None" "\<lparr>Date = 10\<rparr>"]
       ValidateBalance_open_boundary [of ?a "\<lparr>Date = 3\<rparr>" "\<lambda>r. None" ?la "\<lambda>b. None" "\<lparr>Date = 3\<rparr>"]
       v vl e f
  show ?thesis by simp
qed

text \<open>
  Claim C10. In the legacy shape, for every account that passes its own validation,
  \<^verbatim>\<open>ValidateBalance\<close> validates the balance itself before the containment check, and
  returns the balance's own error when that validation fails, also when the date of the
  balance lies inside the time range of the account (where a balance that passes its own
  validation is accepted).
\<close>

theorem ValidateBalance_legacy_validates_balance:
  "(Validate_legacy trv la = None \<and> bv b = Some e \<longrightarrow>
      ValidateBalance_legacy trv bv la b = Some e) \<and>
   (Validate_legacy trv la = None \<and> bv b = None \<and> Contains (timeRange la) (Date b) \<longrightarrow>
      ValidateBalance_legacy trv bv la b = None)"
  by (simp add: ValidateBalance_legacy_def)

theorem ValidateBalance_legacy_validates_balance_witness:
  "Contains \<lparr>Start = \<lparr>Time = 10, Valid = True\<rparr>, End = \<lparr>Time = 20, Valid = True\<rparr>\<rparr> 15 \<and>
   ValidateBalance_legacy (\<lambda>r. None) (\<lambda>b. Some (TextError ''bad balance''))
     \<lparr>Name = ''A'', timeRange = \<lparr>Start = \<lparr>Time = 10, Valid = True\<rparr>,
       End = \<lparr>Time = 20, Valid = True\<rparr>\<rparr>\<rparr> \<lparr>Date = 15\<rparr> = Some (TextError ''bad balance'') \<and>
   ValidateBalance_legacy (\<lambda>r. None) (\<lambda>b. None)
     \<lparr>Name = ''A'', timeRange = \<lparr>Start = \<lparr>Time = 10, Valid = True\<rparr>,
       End = \<lparr>Time = 20, Valid = True\<rparr>\<rparr>\<rparr> \<lparr>Date = 15\<rparr> = None"
proof -
  let ?r = "\<lparr>Start = \<lparr>Time = 10, Valid = True\<rparr>, End = \<lparr>Time = 20, Valid = True\<rparr>\<rparr>"
  let ?la = "\<lparr>Name = ''A'', timeRange = ?r\<rparr>"
  have vl: "Validate_legacy (\<lambda>r. None) ?la = None" by code_simp
  have c: "Contains ?r 15" by (simp add: Contains_def Before_def After_def)
  from ValidateBalance_legacy_validates_balance
         [of "\<lambda>r. None" ?la "\<lambda>b. Some (TextError ''bad balance'')" "\<lparr>Date = 15\<rparr>" "TextError ''bad balance''"]
       ValidateBalance_legacy_validates_balance
         [of "\<lambda>r. None" ?la "\<lambda>b. None" "\<lparr>Date = 15\<rparr>" "TextError ''bad balance''"]
       vl c
  show ?thesis by simp
qed

section \<open>Properties of New\<close>









section \<open>Properties of the JSON methods\<close>










end
